theory Spec2Isabelle
  imports Complex_Main
begin

section \<open>Values, exceptions and telemetry calls\<close>

text \<open>
  The service is a FastAPI application (\<^verbatim>\<open>app/main.py\<close>) whose handlers emit logs,
  metric updates and spans and return JSON, and a telemetry bootstrap
  (\<^verbatim>\<open>app/telemetry.py\<close>). Python values that cross the HTTP boundary are JSON values;
  a \<^verbatim>\<open>dict\<close> keeps its insertion order, so it is an association list.
\<close>

datatype json =
    JNull
  | JBool bool
  | JInt int
  | JNum real
  | JStr string
  | JList "json list"
  | JDict "(string \<times> json) list"

text \<open>Attribute values of metric tags, span attributes and log \<^verbatim>\<open>extra\<close> fields.\<close>

datatype attr = ANone | ABool bool | AInt int | ANum real | AStr string

type_synonym attrs = "(string \<times> attr) list"

text \<open>
  The exception classes the handlers raise or catch. \<open>OtherException cls msg\<close> stands for
  any further subclass of \<^verbatim>\<open>Exception\<close> (the failures of the HTTP client library, for
  one), with its class name and its \<^verbatim>\<open>str()\<close>.
\<close>

datatype py_exception =
    RuntimeError string
  | ValueError string
  | ZeroDivisionError string
  | HTTPException int string
  | OtherException string string

datatype level = NOTSET | DEBUG | INFO | WARNING | ERROR

text \<open>
  The calls a handler makes on the logging, metrics, tracing, clock and HTTP client
  libraries, in the order it makes them. \<open>Log name lvl msg exc_info extra\<close> is a call on the
  logger \<open>name\<close>; \<^verbatim>\<open>logger.exception\<close> is an \<open>ERROR\<close> record with \<open>exc_info\<close> set.
\<close>

datatype event =
    Log string level string bool attrs
  | CounterAdd string int attrs
  | HistogramRecord string real attrs
  | SpanStart string
  | SpanSetAttribute string string attr
  | SpanAddEvent string string attrs
  | SpanRecordException string py_exception
  | SpanEnd string
  | Sleep real
  | HttpGet string real
  | ConfigureAzureMonitor string bool string

subsection \<open>String conversions\<close>

definition digit_char :: "nat \<Rightarrow> char" where
  "digit_char d = char_of (48 + d)"

function str_nat :: "nat \<Rightarrow> string" where
  "str_nat n = (if n < 10 then [digit_char n] else str_nat (n div 10) @ [digit_char (n mod 10)])"
  by pat_completeness auto
termination
  by (relation "measure id") auto

declare str_nat.simps [simp del]

text \<open>\<^verbatim>\<open>str(i)\<close> of a Python integer.\<close>

definition str_int :: "int \<Rightarrow> string" where
  "str_int i = (if i < 0 then CHR ''-'' # str_nat (nat (- i)) else str_nat (nat i))"

text \<open>\<^verbatim>\<open>type(e).__name__\<close> and \<^verbatim>\<open>str(e)\<close>.\<close>

fun type_name :: "py_exception \<Rightarrow> string" where
  "type_name (RuntimeError m) = ''RuntimeError''"
| "type_name (ValueError m) = ''ValueError''"
| "type_name (ZeroDivisionError m) = ''ZeroDivisionError''"
| "type_name (HTTPException s d) = ''HTTPException''"
| "type_name (OtherException c m) = c"

fun str_exc :: "py_exception \<Rightarrow> string" where
  "str_exc (RuntimeError m) = m"
| "str_exc (ValueError m) = m"
| "str_exc (ZeroDivisionError m) = m"
| "str_exc (HTTPException s d) = str_int s @ '': '' @ d"
| "str_exc (OtherException c m) = m"

fun is_HTTPException :: "py_exception \<Rightarrow> bool" where
  "is_HTTPException (HTTPException s d) = True"
| "is_HTTPException e = False"

text \<open>An \<^verbatim>\<open>Optional[str]\<close> inside an f-string, and as an attribute value.\<close>

fun str_opt :: "string option \<Rightarrow> string" where
  "str_opt None = ''None''"
| "str_opt (Some s) = s"

fun attr_opt :: "string option \<Rightarrow> attr" where
  "attr_opt None = ANone"
| "attr_opt (Some s) = AStr s"

subsection \<open>Numbers\<close>

text \<open>
  Python floats are modelled by real numbers. \<^verbatim>\<open>round(x, 2)\<close> rounds to the nearest
  multiple of \<open>1/100\<close>, ties to the even one; \<^verbatim>\<open>1 / 0\<close> raises.
\<close>

definition round_half_even :: "real \<Rightarrow> int" where
  "round_half_even x =
     (let f = \<lfloor>x\<rfloor>; d = x - of_int f
      in if d < 1 / 2 then f else if 1 / 2 < d then f + 1 else if even f then f else f + 1)"

definition py_round2 :: "real \<Rightarrow> real" where
  "py_round2 x = of_int (round_half_even (x * 100)) / 100"

definition py_truediv :: "real \<Rightarrow> real \<Rightarrow> py_exception + real" where
  "py_truediv a b = (if b = 0 then Inl (ZeroDivisionError ''division by zero'') else Inr (a / b))"

text \<open>The format \<^verbatim>\<open>{x:.2f}\<close>: the sign of a negative number, then two decimals.\<close>

definition format_2f :: "real \<Rightarrow> string" where
  "format_2f x =
     (let c = round_half_even (\<bar>x\<bar> * 100);
          two = (\<lambda>n. [digit_char (n div 10), digit_char (n mod 10)])
      in (if x < 0 then ''-'' else '''') @
         str_nat (nat (c div 100)) @ ''.'' @ two (nat (c mod 100)))"

text \<open>
  The random module: \<^verbatim>\<open>uniform(a, b)\<close> is \<^verbatim>\<open>a + (b - a) * random()\<close> and
  \<^verbatim>\<open>choice(seq)\<close> is \<^verbatim>\<open>seq[_randbelow(len(seq))]\<close>. The draws themselves
  (\<open>u\<close> from \<^verbatim>\<open>random()\<close>, in \<open>[0, 1)\<close>, and \<open>k\<close> from \<^verbatim>\<open>_randbelow(n)\<close>, below \<open>n\<close>)
  are inputs of the model.
\<close>

definition random_uniform :: "real \<Rightarrow> real \<Rightarrow> real \<Rightarrow> real" where
  "random_uniform a b u = a + (b - a) * u"

definition random_choice :: "'a list \<Rightarrow> nat \<Rightarrow> 'a" where
  "random_choice seq k = seq ! k"

section \<open>The process state\<close>

text \<open>
  The global state the code reads and writes: the calls made so far, the registry of
  telemetry providers (unset until the bootstrap registers one), the handlers and level of
  the root logger, and the libraries that have been instrumented.
\<close>

datatype exporter =
    AzureMonitorTraceExporter string
  | AzureMonitorMetricExporter string
  | AzureMonitorLogExporter string

datatype processor =
    BatchSpanProcessor exporter
  | PeriodicExportingMetricReader exporter
  | BatchLogRecordProcessor exporter

record provider =
  resource :: attrs
  processors :: "processor list"

datatype log_handler = StreamHandler | LoggingHandler level provider

record world =
  events :: "event list"
  tracer_provider :: "provider option"
  meter_provider :: "provider option"
  logger_provider :: "provider option"
  root_handlers :: "log_handler list"
  root_level :: level
  instrumented :: "string list"

definition emit :: "event \<Rightarrow> world \<Rightarrow> world" where
  "emit e w = w\<lparr>events := events w @ [e]\<rparr>"

text \<open>The module-level objects of \<^verbatim>\<open>app/main.py\<close>: four instruments and the logger.\<close>

definition request_counter :: string where
  "request_counter = ''demo.requests.total''"

definition processing_time_histogram :: string where
  "processing_time_histogram = ''demo.processing.duration''"

definition active_users_gauge :: string where
  "active_users_gauge = ''demo.active_users''"

definition error_counter :: string where
  "error_counter = ''demo.errors.total''"

definition logger :: string where
  "logger = ''app.main''"

definition logger_debug :: "string \<Rightarrow> attrs \<Rightarrow> world \<Rightarrow> world" where
  "logger_debug msg extra = emit (Log logger DEBUG msg False extra)"

definition logger_info :: "string \<Rightarrow> attrs \<Rightarrow> world \<Rightarrow> world" where
  "logger_info msg extra = emit (Log logger INFO msg False extra)"

definition logger_warning :: "string \<Rightarrow> attrs \<Rightarrow> world \<Rightarrow> world" where
  "logger_warning msg extra = emit (Log logger WARNING msg False extra)"

definition logger_error :: "string \<Rightarrow> attrs \<Rightarrow> world \<Rightarrow> world" where
  "logger_error msg extra = emit (Log logger ERROR msg False extra)"

definition logger_exception :: "string \<Rightarrow> attrs \<Rightarrow> world \<Rightarrow> world" where
  "logger_exception msg extra = emit (Log logger ERROR msg True extra)"

section \<open>Responses\<close>

text \<open>
  A handler either returns a value or raises. The framework turns a returned value into a
  response with status 200 and an \<^verbatim>\<open>HTTPException\<close> into a response with its status code and
  its detail; any other exception escapes the route (\<open>None\<close>) and reaches the handler
  registered for \<^verbatim>\<open>Exception\<close>.
\<close>

record response =
  status :: int
  body :: json

fun respond :: "py_exception + json \<Rightarrow> response option" where
  "respond (Inr v) = Some \<lparr>status = 200, body = v\<rparr>"
| "respond (Inl (HTTPException s d)) = Some \<lparr>status = s, body = JDict [(''detail'', JStr d)]\<rparr>"
| "respond (Inl e) = None"

section \<open>The exception endpoint\<close>

text \<open>
  The \<^verbatim>\<open>try\<close> block of \<^verbatim>\<open>demo_exception\<close>: every branch raises, the third one through the
  division \<^verbatim>\<open>1 / 0\<close>.
\<close>

definition demo_exception_try :: "string option \<Rightarrow> py_exception + unit" where
  "demo_exception_try error_type =
     (if error_type = Some ''runtime'' then
        Inl (RuntimeError ''This is a simulated runtime error for testing'')
      else if error_type = Some ''http'' then
        Inl (HTTPException 503 ''Service temporarily unavailable'')
      else if error_type = Some ''zero_division'' then
        (case py_truediv 1 0 of Inl e \<Rightarrow> Inl e | Inr result \<Rightarrow> Inr ())
      else Inl (ValueError (''Unknown error type: '' @ str_opt error_type)))"

definition demo_exception :: "string option \<Rightarrow> world \<Rightarrow> world \<times> (py_exception + json)" where
  "demo_exception error_type w =
     (let w1 = emit (CounterAdd error_counter 1
                 [(''error_type'', attr_opt error_type), (''endpoint'', AStr ''/demo/exception'')]) w
      in case demo_exception_try error_type of
           Inr u \<Rightarrow> (w1, Inr JNull)
         | Inl e \<Rightarrow>
             if is_HTTPException e then (w1, Inl e)
             else (logger_exception (''Exception occurred: '' @ type_name e)
                     [(''error_type'', attr_opt error_type),
                      (''exception_class'', AStr (type_name e))] w1,
                   Inl (HTTPException 500 (''Internal error: '' @ str_exc e))))"

text \<open>
  The query parameter: \<^verbatim>\<open>Query(default="runtime")\<close> gives the handler \<^verbatim>\<open>"runtime"\<close> when the
  request has no \<^verbatim>\<open>error_type\<close>.
\<close>

definition error_type_query :: "string option \<Rightarrow> string option" where
  "error_type_query param = (case param of None \<Rightarrow> Some ''runtime'' | Some v \<Rightarrow> Some v)"

definition get_demo_exception :: "string option \<Rightarrow> world \<Rightarrow> world \<times> (py_exception + json)" where
  "get_demo_exception param w = demo_exception (error_type_query param) w"

section \<open>The plain endpoints\<close>

definition root_route :: "world \<Rightarrow> world \<times> (py_exception + json)" where
  "root_route w =
     (logger_info ''Root endpoint accessed'' [(''user_action'', AStr ''view_home'')] w,
      Inr (JDict
        [(''message'', JStr ''Hello from FastAPI with OpenTelemetry & Azure Monitor!''),
         (''endpoints'', JDict
            [(''health'', JStr ''/health''),
             (''info_log'', JStr ''/demo/info''),
             (''warning_log'', JStr ''/demo/warning''),
             (''error_log'', JStr ''/demo/error''),
             (''exception'', JStr ''/demo/exception''),
             (''metrics'', JStr ''/demo/metrics''),
             (''custom_trace'', JStr ''/demo/trace''),
             (''dependency'', JStr ''/demo/dependency''),
             (''slow_operation'', JStr ''/demo/slow''),
             (''all_telemetry'', JStr ''/demo/all'')])]))"

text \<open>
  \<^verbatim>\<open>health\<close> returns the reading of \<^verbatim>\<open>time.time()\<close>, the system clock, which is an input
  of the model: \<open>now\<close>.
\<close>

definition health :: "real \<Rightarrow> world \<Rightarrow> world \<times> (py_exception + json)" where
  "health now w =
     (logger_debug ''Health check performed'' [] w,
      Inr (JDict [(''status'', JStr ''healthy''), (''timestamp'', JNum now)]))"

definition demo_info_log :: "world \<Rightarrow> world \<times> (py_exception + json)" where
  "demo_info_log w =
     (logger_info ''This is an informational message''
        [(''event_type'', AStr ''user_action''), (''action'', AStr ''demo_info''),
         (''user_id'', AStr ''user123'')] w,
      Inr (JDict [(''message'', JStr ''INFO log sent to Azure Monitor'')]))"

definition demo_warning_log :: "world \<Rightarrow> world \<times> (py_exception + json)" where
  "demo_warning_log w =
     (logger_warning ''This is a warning message - something unusual happened''
        [(''warning_type'', AStr ''unusual_behavior''), (''severity'', AStr ''medium''),
         (''component'', AStr ''demo_service'')] w,
      Inr (JDict [(''message'', JStr ''WARNING log sent to Azure Monitor'')]))"

definition demo_error_log :: "world \<Rightarrow> world \<times> (py_exception + json)" where
  "demo_error_log w =
     (let w1 = emit (CounterAdd error_counter 1
                 [(''error_type'', AStr ''logged_error''), (''endpoint'', AStr ''/demo/error'')]) w;
          w2 = logger_error ''This is an error message - operation failed''
                 [(''error_code'', AStr ''ERR_001''), (''operation'', AStr ''data_processing''),
                  (''retry_count'', AInt 3)] w1
      in (w2, Inr (JDict [(''message'', JStr ''ERROR log sent to Azure Monitor''),
                          (''error_logged'', JBool True)])))"

section \<open>Metrics, traces and the slow operation\<close>

definition demo_metrics :: "real \<Rightarrow> nat \<Rightarrow> world \<Rightarrow> world \<times> (py_exception + json)" where
  "demo_metrics u k w =
     (let w1 = emit (CounterAdd request_counter 1
                 [(''endpoint'', AStr ''/demo/metrics''), (''method'', AStr ''GET'')]) w;
          processing_time = random_uniform 10 500 u;
          w2 = emit (HistogramRecord processing_time_histogram processing_time
                 [(''operation'', AStr ''demo_metrics'')]) w1;
          user_change = random_choice [- 1, 1, 2] k;
          w3 = emit (CounterAdd active_users_gauge user_change [(''region'', AStr ''us-east'')]) w2;
          w4 = logger_info (''Custom metrics recorded: processing_time='' @
                 format_2f processing_time @ ''ms, user_change='' @ str_int user_change) [] w3
      in (w4, Inr (JDict
            [(''message'', JStr ''Custom metrics sent to Azure Monitor''),
             (''metrics'', JDict
                [(''request_count'', JStr ''+1''),
                 (''processing_time_ms'', JNum (py_round2 processing_time)),
                 (''active_users_change'', JInt user_change)])])))"

text \<open>\<open>data_size\<close> is the draw of \<^verbatim>\<open>random.randint(100, 1000)\<close>.\<close>

definition demo_custom_trace :: "int \<Rightarrow> world \<Rightarrow> world \<times> (py_exception + json)" where
  "demo_custom_trace data_size w =
     (let w1 = emit (SpanStart ''custom_operation'') w;
          w2 = emit (SpanSetAttribute ''custom_operation'' ''operation.type'' (AStr ''demo'')) w1;
          w3 = emit (SpanSetAttribute ''custom_operation'' ''user.id'' (AStr ''user456'')) w2;
          w4 = emit (SpanSetAttribute ''custom_operation'' ''custom.property''
                 (AStr ''example_value'')) w3;
          w5 = emit (Sleep (1 / 10)) w4;
          w6 = emit (SpanStart ''sub_operation'') w5;
          w7 = emit (SpanSetAttribute ''sub_operation'' ''sub_task'' (AStr ''data_processing'')) w6;
          w8 = emit (Sleep (5 / 100)) w7;
          w9 = emit (SpanAddEvent ''sub_operation'' ''Processing started'' []) w8;
          w10 = emit (SpanSetAttribute ''sub_operation'' ''data.size'' (AInt data_size)) w9;
          w11 = emit (SpanAddEvent ''sub_operation'' ''Processing completed''
                  [(''records_processed'', AInt data_size)]) w10;
          w12 = emit (SpanEnd ''sub_operation'') w11;
          w13 = emit (SpanAddEvent ''custom_operation'' ''Operation completed successfully'' []) w12;
          w14 = logger_info ''Custom trace with nested spans created'' [] w13;
          w15 = emit (SpanEnd ''custom_operation'') w14
      in (w15, Inr (JDict
            [(''message'', JStr ''Custom trace with nested spans sent to Azure Monitor'')])))"

definition demo_slow_operation :: "real \<Rightarrow> world \<Rightarrow> world \<times> (py_exception + json)" where
  "demo_slow_operation u w =
     (let w1 = emit (SpanStart ''slow_operation'') w;
          duration = random_uniform 1 3 u;
          w2 = emit (SpanSetAttribute ''slow_operation'' ''operation.duration_seconds''
                 (ANum duration)) w1;
          w3 = logger_warning (''Starting slow operation (will take '' @ format_2f duration @ ''s)'')
                 [(''performance_warning'', ABool True), (''expected_duration'', ANum duration)] w2;
          w4 = emit (Sleep duration) w3;
          w5 = emit (HistogramRecord processing_time_histogram (duration * 1000)
                 [(''operation'', AStr ''slow_operation'')]) w4;
          w6 = logger_info ''Slow operation completed''
                 [(''actual_duration'', ANum duration), (''performance_impact'', AStr ''high'')] w5;
          w7 = emit (SpanEnd ''slow_operation'') w6
      in (w7, Inr (JDict
            [(''message'', JStr ''Slow operation completed''),
             (''duration_seconds'', JNum (py_round2 duration)),
             (''note'', JStr ''Check Azure Monitor for performance metrics'')])))"

text \<open>The time a sequence of calls spends in \<^verbatim>\<open>time.sleep\<close>.\<close>

fun time_slept :: "event list \<Rightarrow> real" where
  "time_slept [] = 0"
| "time_slept (Sleep d # es) = d + time_slept es"
| "time_slept (e # es) = time_slept es"

section \<open>The outbound dependency\<close>

text \<open>
  What \<^verbatim>\<open>requests.get\<close> hands back when it returns: the status code, the elapsed time, and
  the result of \<^verbatim>\<open>response.json()\<close>, which raises when the body is not JSON. The call
  itself either raises or returns such a response; its outcome is an input of the model.
\<close>

record requests_response =
  status_code :: int
  elapsed_total_seconds :: real
  json_result :: "py_exception + json"

text \<open>The \<^verbatim>\<open>except Exception\<close> block of \<^verbatim>\<open>demo_dependency_tracking\<close>, then the span's exit.\<close>

definition dependency_except :: "py_exception \<Rightarrow> world \<Rightarrow> world \<times> (py_exception + json)" where
  "dependency_except e w =
     (let w1 = emit (SpanSetAttribute ''external_api_call'' ''dependency.success'' (ABool False)) w;
          w2 = emit (SpanRecordException ''external_api_call'' e) w1;
          w3 = logger_error (''External API call failed: '' @ str_exc e) [] w2;
          w4 = emit (SpanEnd ''external_api_call'') w3
      in (w4, Inl (HTTPException 502 (''External service error: '' @ str_exc e))))"

definition demo_dependency_tracking ::
  "(py_exception + requests_response) \<Rightarrow> world \<Rightarrow> world \<times> (py_exception + json)" where
  "demo_dependency_tracking outbound w =
     (let w1 = emit (SpanStart ''external_api_call'') w;
          w2 = emit (SpanSetAttribute ''external_api_call'' ''dependency.type'' (AStr ''http'')) w1;
          w3 = emit (SpanSetAttribute ''external_api_call'' ''dependency.target''
                 (AStr ''jsonplaceholder.typicode.com'')) w2;
          w4 = emit (HttpGet ''https://jsonplaceholder.typicode.com/posts/1'' 5) w3
      in case outbound of
           Inl e \<Rightarrow> dependency_except e w4
         | Inr r \<Rightarrow>
             (let w5 = emit (SpanSetAttribute ''external_api_call'' ''http.status_code''
                         (AInt (status_code r))) w4;
                  w6 = emit (SpanSetAttribute ''external_api_call'' ''dependency.success''
                         (ABool True)) w5;
                  w7 = logger_info ''External API called successfully''
                         [(''status_code'', AInt (status_code r)),
                          (''response_time_ms'', ANum (elapsed_total_seconds r * 1000))] w6
              in case json_result r of
                   Inl e \<Rightarrow> dependency_except e w7
                 | Inr data \<Rightarrow>
                     (emit (SpanEnd ''external_api_call'') w7,
                      Inr (JDict
                        [(''message'', JStr ''Dependency tracking demonstrated''),
                         (''external_api'', JStr ''jsonplaceholder.typicode.com''),
                         (''status_code'', JInt (status_code r)),
                         (''data'', data)]))))"

text \<open>The number of outbound HTTP calls among a sequence of calls.\<close>

fun outbound_calls :: "event list \<Rightarrow> nat" where
  "outbound_calls [] = 0"
| "outbound_calls (HttpGet url t # es) = Suc (outbound_calls es)"
| "outbound_calls (e # es) = outbound_calls es"

section \<open>The comprehensive endpoint\<close>

text \<open>The marks \<^verbatim>\<open>U+2713\<close> and \<^verbatim>\<open>U+2717\<close> that open each entry, as their UTF-8 bytes.\<close>

definition check_mark :: string where
  "check_mark = [CHR 0xE2, CHR 0x9C, CHR 0x93]"

definition ballot_x :: string where
  "ballot_x = [CHR 0xE2, CHR 0x9C, CHR 0x97]"

text \<open>
  Step 5 of \<^verbatim>\<open>demo_all_telemetry\<close>: the outbound call in its own \<^verbatim>\<open>try\<close>, whose
  \<^verbatim>\<open>except Exception\<close> logs and goes on. It returns the state and the entry appended to
  \<^verbatim>\<open>results\<close>.
\<close>

definition demo_all_dependency ::
  "(py_exception + requests_response) \<Rightarrow> world \<Rightarrow> world \<times> string" where
  "demo_all_dependency outbound w =
     (let w1 = emit (HttpGet ''https://jsonplaceholder.typicode.com/users/1'' 5) w
      in case outbound of
           Inr r \<Rightarrow>
             (emit (SpanSetAttribute ''comprehensive_demo'' ''dependency.called'' (ABool True)) w1,
              check_mark @ '' Dependency tracking (status: '' @ str_int (status_code r) @ '')'')
         | Inl e \<Rightarrow>
             (logger_error (''Dependency call failed: '' @ str_exc e) [] w1,
              ballot_x @ '' Dependency tracking (failed)''))"

definition demo_all_telemetry ::
  "(py_exception + requests_response) \<Rightarrow> world \<Rightarrow> world \<times> (py_exception + json)" where
  "demo_all_telemetry outbound w =
     (let w1 = emit (SpanStart ''comprehensive_demo'') w;
          w2 = emit (SpanSetAttribute ''comprehensive_demo'' ''demo.type''
                 (AStr ''comprehensive'')) w1;
          results0 = [];
          w3 = logger_info ''Comprehensive demo started'' [(''demo_id'', AStr ''all_telemetry'')] w2;
          results1 = results0 @ [check_mark @ '' INFO log''];
          w4 = logger_warning ''This is part of the comprehensive demo''
                 [(''warning_level'', AStr ''informational'')] w3;
          results2 = results1 @ [check_mark @ '' WARNING log''];
          w5 = emit (CounterAdd request_counter 1
                 [(''endpoint'', AStr ''/demo/all''), (''demo'', AStr ''comprehensive'')]) w4;
          w6 = emit (HistogramRecord processing_time_histogram 250
                 [(''operation'', AStr ''comprehensive_demo'')]) w5;
          w7 = emit (CounterAdd active_users_gauge 1 [(''region'', AStr ''demo'')]) w6;
          results3 = results2 @ [check_mark @ '' Custom metrics (counter, histogram, gauge)''];
          w8 = emit (SpanStart ''demo_sub_operation'') w7;
          w9 = emit (SpanAddEvent ''demo_sub_operation'' ''Sub-operation started'' []) w8;
          w10 = emit (Sleep (1 / 10)) w9;
          w11 = emit (SpanSetAttribute ''demo_sub_operation'' ''records_processed'' (AInt 42)) w10;
          w12 = emit (SpanAddEvent ''demo_sub_operation'' ''Sub-operation completed'' []) w11;
          w13 = emit (SpanEnd ''demo_sub_operation'') w12;
          results4 = results3 @ [check_mark @ '' Custom nested trace''];
          (w14, entry) = demo_all_dependency outbound w13;
          results5 = results4 @ [entry];
          w15 = logger_error ''Simulated error for demo purposes''
                  [(''is_demo'', ABool True), (''error_code'', AStr ''DEMO_ERR'')] w14;
          w16 = emit (CounterAdd error_counter 1
                  [(''error_type'', AStr ''simulated''), (''endpoint'', AStr ''/demo/all'')]) w15;
          results6 = results5 @ [check_mark @ '' ERROR log''];
          e = ValueError ''This is a controlled exception for demo'';
          w17 = logger_exception ''Caught exception in comprehensive demo'' [] w16;
          w18 = emit (SpanRecordException ''comprehensive_demo'' e) w17;
          results7 = results6 @ [check_mark @ '' Exception (caught and logged)''];
          w19 = logger_info ''Comprehensive demo completed''
                  [(''telemetry_types_generated'', AInt (int (length results7)))] w18;
          w20 = emit (SpanEnd ''comprehensive_demo'') w19
      in (w20, Inr (JDict
            [(''message'', JStr ''All telemetry types generated successfully!''),
             (''telemetry_generated'', JList (map JStr results7)),
             (''total_types'', JInt (int (length results7))),
             (''note'', JStr ''Check Azure Monitor Application Insights in 2-5 minutes'')])))"

section \<open>The handler registered for every exception\<close>

record request =
  url_path :: string
  http_method :: string

text \<open>
  \<^verbatim>\<open>global_exception_handler\<close> is registered with \<^verbatim>\<open>@app.exception_handler(Exception)\<close>.
  It logs and returns a \<^verbatim>\<open>dict\<close>. The objects such a handler can hand back are a plain
  \<^verbatim>\<open>dict\<close> or a response object carrying a status code.
\<close>

datatype py_object = PyDict "(string \<times> json) list" | JSONResponse int json

definition global_exception_handler ::
  "request \<Rightarrow> py_exception \<Rightarrow> world \<Rightarrow> world \<times> py_object" where
  "global_exception_handler request exc w =
     (logger_exception (''Unhandled exception on '' @ url_path request)
        [(''path'', AStr (url_path request)), (''method'', AStr (http_method request))] w,
      PyDict [(''error'', JStr ''Internal server error''),
              (''detail'', JStr (str_exc exc)),
              (''path'', JStr (url_path request))])"

text \<open>
  The framework's server-error middleware runs the registered handler on an exception that
  escaped a route and then calls what the handler returned, as a response:
  \<^verbatim>\<open>response = await self.handler(request, exc)\<close>,
  \<^verbatim>\<open>await response(scope, receive, send)\<close>. A response object sends its status and
  body; a \<^verbatim>\<open>dict\<close> is not callable, and the call raises \<^verbatim>\<open>TypeError\<close>.
\<close>

fun call_as_response :: "py_object \<Rightarrow> py_exception + response" where
  "call_as_response (JSONResponse s b) = Inr \<lparr>status = s, body = b\<rparr>"
| "call_as_response (PyDict kvs) =
     Inl (OtherException ''TypeError'' (CHR 0x27 # ''dict'' @ CHR 0x27 # '' object is not callable''))"

definition server_error :: "request \<Rightarrow> py_exception \<Rightarrow> world \<Rightarrow> world \<times> (py_exception + response)" where
  "server_error request exc w =
     (let (w1, returned) = global_exception_handler request exc w
      in (w1, call_as_response returned))"

section \<open>Settings and the telemetry bootstrap\<close>

record settings =
  app_name :: string
  app_version :: string
  environment :: string
  host :: string
  port :: int
  applicationinsights_connection_string :: "string option"
  applicationid :: "string option"
  otel_service_name :: string
  log_level :: string

text \<open>The defaults of the \<^verbatim>\<open>Settings\<close> class: what an empty environment gives.\<close>

definition default_settings :: settings where
  "default_settings =
     \<lparr>app_name = ''azure-monitor-demo'', app_version = ''1.0.0'', environment = ''development'',
      host = ''0.0.0.0'', port = 8000, applicationinsights_connection_string = None,
      applicationid = None, otel_service_name = ''fastapi-otel-azure'', log_level = ''INFO''\<rparr>"

text \<open>
  The module-level \<^verbatim>\<open>logging.warning\<close> of the standard library logs on the root logger,
  after calling \<^verbatim>\<open>basicConfig()\<close> when the root logger has no handler; \<^verbatim>\<open>basicConfig()\<close>
  then installs a stream handler.
\<close>

definition basicConfig :: "world \<Rightarrow> world" where
  "basicConfig w = (if root_handlers w = [] then w\<lparr>root_handlers := [StreamHandler]\<rparr> else w)"

definition logging_warning :: "string \<Rightarrow> world \<Rightarrow> world" where
  "logging_warning msg w =
     (let w1 = (if length (root_handlers w) = 0 then basicConfig w else w)
      in emit (Log ''root'' WARNING msg False []) w1)"

text \<open>Python's truth value of an \<^verbatim>\<open>Optional[str]\<close>: \<^verbatim>\<open>None\<close> and \<^verbatim>\<open>""\<close> are false.\<close>

fun truthy :: "string option \<Rightarrow> bool" where
  "truthy None = False"
| "truthy (Some s) = (s \<noteq> [])"

text \<open>
  \<^verbatim>\<open>setup_telemetry\<close>. The application handle is only passed on to the FastAPI
  instrumentor; the model records which libraries were instrumented. A provider object is
  registered first and given its processor afterwards: the registry holds the object, so it
  sees the processor.
\<close>

definition setup_telemetry :: "settings \<Rightarrow> world \<Rightarrow> world" where
  "setup_telemetry st w =
     (let connection_string = applicationinsights_connection_string st;
          service_name = (if otel_service_name st \<noteq> [] then otel_service_name st else app_name st)
      in if \<not> truthy connection_string then
           logging_warning (''APPLICATIONINSIGHTS_CONNECTION_STRING is not set. '' @
                            ''Telemetry will not be sent to Azure Monitor.'') w
         else
           (let cs = str_opt connection_string;
                res = [(''service.name'', AStr service_name),
                       (''service.version'', AStr (app_version st)),
                       (''deployment.environment'', AStr (environment st))];
                tracer_prov = \<lparr>resource = res,
                               processors = [BatchSpanProcessor (AzureMonitorTraceExporter cs)]\<rparr>;
                w1 = w\<lparr>tracer_provider := Some tracer_prov\<rparr>;
                meter_prov = \<lparr>resource = res,
                              processors =
                                [PeriodicExportingMetricReader (AzureMonitorMetricExporter cs)]\<rparr>;
                w2 = w1\<lparr>meter_provider := Some meter_prov\<rparr>;
                w3 = emit (ConfigureAzureMonitor cs True ''app.main'') w2;
                logger_prov = \<lparr>resource = res,
                               processors =
                                 [BatchLogRecordProcessor (AzureMonitorLogExporter cs)]\<rparr>;
                w4 = w3\<lparr>logger_provider := Some logger_prov\<rparr>;
                w5 = w4\<lparr>root_handlers := root_handlers w4 @ [LoggingHandler NOTSET logger_prov]\<rparr>;
                w6 = w5\<lparr>root_level := INFO\<rparr>;
                w7 = w6\<lparr>instrumented := instrumented w6 @ [''fastapi'', ''requests'', ''logging'']\<rparr>
            in emit (Log ''app.telemetry'' INFO
                       (''OpenTelemetry with Azure Monitor configured for '' @ service_name)
                       False []) w7))"

section \<open>The route table\<close>

text \<open>
  One constructor per \<^verbatim>\<open>@app.get\<close> route; the exception endpoint carries its query
  parameter. What a request draws from its environment (the clock, the random module, the
  third-party endpoint) is gathered in one record.
\<close>

datatype endpoint =
    Root
  | Health
  | DemoInfo
  | DemoWarning
  | DemoError
  | DemoException "string option"
  | DemoMetrics
  | DemoTrace
  | DemoDependency
  | DemoSlow
  | DemoAll

fun path_of :: "endpoint \<Rightarrow> string" where
  "path_of Root = ''/''"
| "path_of Health = ''/health''"
| "path_of DemoInfo = ''/demo/info''"
| "path_of DemoWarning = ''/demo/warning''"
| "path_of DemoError = ''/demo/error''"
| "path_of (DemoException param) = ''/demo/exception''"
| "path_of DemoMetrics = ''/demo/metrics''"
| "path_of DemoTrace = ''/demo/trace''"
| "path_of DemoDependency = ''/demo/dependency''"
| "path_of DemoSlow = ''/demo/slow''"
| "path_of DemoAll = ''/demo/all''"

record env =
  now :: real
  rand_unit :: real
  rand_below :: nat
  rand_int :: int
  outbound :: "py_exception + requests_response"

fun serve :: "endpoint \<Rightarrow> env \<Rightarrow> world \<Rightarrow> world \<times> (py_exception + json)" where
  "serve Root en w = root_route w"
| "serve Health en w = health (now en) w"
| "serve DemoInfo en w = demo_info_log w"
| "serve DemoWarning en w = demo_warning_log w"
| "serve DemoError en w = demo_error_log w"
| "serve (DemoException param) en w = get_demo_exception param w"
| "serve DemoMetrics en w = demo_metrics (rand_unit en) (rand_below en) w"
| "serve DemoTrace en w = demo_custom_trace (rand_int en) w"
| "serve DemoDependency en w = demo_dependency_tracking (outbound en) w"
| "serve DemoSlow en w = demo_slow_operation (rand_unit en) w"
| "serve DemoAll en w = demo_all_telemetry (outbound en) w"

text \<open>
  The status codes the interface table and the tests give for each route: 200 everywhere,
  but 503 or 500 on the exception endpoint and 200 or 502 on the dependency endpoint.
\<close>

fun documented_statuses :: "endpoint \<Rightarrow> int list" where
  "documented_statuses (DemoException param) = (if param = Some ''http'' then [503] else [500])"
| "documented_statuses DemoDependency = [200, 502]"
| "documented_statuses ep = [200]"

section \<open>Observations\<close>

text \<open>
  A fresh process: nothing called yet, no provider registered, the root logger without
  handlers at its default level.
\<close>

definition initial_world :: world where
  "initial_world =
     \<lparr>events = [], tracer_provider = None, meter_provider = None, logger_provider = None,
      root_handlers = [], root_level = WARNING, instrumented = []\<rparr>"

text \<open>A field of a returned \<^verbatim>\<open>dict\<close>, and the status of the response the client gets.\<close>

fun json_field :: "string \<Rightarrow> json \<Rightarrow> json option" where
  "json_field k (JDict kvs) = map_of kvs k"
| "json_field k v = None"

fun returned_field :: "string \<Rightarrow> py_exception + json \<Rightarrow> json option" where
  "returned_field k (Inr v) = json_field k v"
| "returned_field k (Inl e) = None"

definition status_of :: "py_exception + json \<Rightarrow> int option" where
  "status_of outcome = map_option status (respond outcome)"

text \<open>The updates of one counter among a sequence of calls: amount and tags, in order.\<close>

fun counter_adds :: "string \<Rightarrow> event list \<Rightarrow> (int \<times> attrs) list" where
  "counter_adds n [] = []"
| "counter_adds n (CounterAdd m a t # es) =
     (if m = n then (a, t) # counter_adds n es else counter_adds n es)"
| "counter_adds n (e # es) = counter_adds n es"

section \<open>Helper lemmas\<close>

subsection \<open>Sequences of calls\<close>

lemma counter_adds_append:
  "counter_adds n (xs @ ys) = counter_adds n xs @ counter_adds n ys"
  by (induction n xs rule: counter_adds.induct) auto

lemma outbound_calls_append:
  "outbound_calls (xs @ ys) = outbound_calls xs + outbound_calls ys"
  by (induction xs rule: outbound_calls.induct) auto

lemma time_slept_append:
  "time_slept (xs @ ys) = time_slept xs + time_slept ys"
  by (induction xs rule: time_slept.induct) auto

subsection \<open>Rounding and the random draws\<close>

lemma round_half_even_ge: "of_int n \<le> x \<Longrightarrow> n \<le> round_half_even x"
proof -
  assume "of_int n \<le> x"
  then have "n \<le> \<lfloor>x\<rfloor>" by (simp add: le_floor_iff)
  then show ?thesis by (auto simp: round_half_even_def Let_def)
qed

lemma round_half_even_le: "x \<le> of_int n \<Longrightarrow> round_half_even x \<le> n"
proof (cases "x = of_int n")
  case True
  then show ?thesis by (simp add: round_half_even_def Let_def)
next
  case False
  assume "x \<le> of_int n"
  with False have "x < of_int n" by simp
  then have "\<lfloor>x\<rfloor> < n" by (simp add: floor_less_iff)
  then show ?thesis by (auto simp: round_half_even_def Let_def)
qed

lemma round_half_even_near: "\<bar>of_int (round_half_even x) - x\<bar> \<le> 1 / 2"
proof -
  have "of_int \<lfloor>x\<rfloor> \<le> x" "x < of_int \<lfloor>x\<rfloor> + 1" by linarith+
  then show ?thesis by (auto simp: round_half_even_def Let_def)
qed

lemma py_round2_bounds:
  assumes "of_int a \<le> x" "x \<le> of_int b"
  shows "of_int a \<le> py_round2 x" "py_round2 x \<le> of_int b"
proof -
  have "of_int (a * 100) \<le> x * 100" "x * 100 \<le> of_int (b * 100)"
    using assms by simp_all
  then have "a * 100 \<le> round_half_even (x * 100)" "round_half_even (x * 100) \<le> b * 100"
    by (simp_all only: round_half_even_ge round_half_even_le)
  then have "(of_int (a * 100) :: real) \<le> of_int (round_half_even (x * 100))"
    "(of_int (round_half_even (x * 100)) :: real) \<le> of_int (b * 100)"
    by (simp_all only: of_int_le_iff)
  then show "of_int a \<le> py_round2 x" "py_round2 x \<le> of_int b"
    by (simp_all add: py_round2_def field_simps)
qed

lemma py_round2_near: "\<bar>py_round2 x - x\<bar> \<le> 1 / 200"
  using round_half_even_near [of "x * 100"]
  by (simp add: py_round2_def field_simps abs_le_iff)

lemma random_uniform_bounds:
  assumes "0 \<le> u" "u < 1" "a \<le> b"
  shows "a \<le> random_uniform a b u" "random_uniform a b u \<le> b"
proof -
  have "0 \<le> (b - a) * u" using assms by simp
  then show "a \<le> random_uniform a b u" by (simp add: random_uniform_def)
  have "(b - a) * u \<le> (b - a) * 1" using assms by (intro mult_left_mono) simp_all
  then show "random_uniform a b u \<le> b" by (simp add: random_uniform_def)
qed

subsection \<open>Status of every route\<close>

lemma demo_exception_try_cases:
  "demo_exception_try error_type =
     (if error_type = Some ''runtime'' then
        Inl (RuntimeError ''This is a simulated runtime error for testing'')
      else if error_type = Some ''http'' then
        Inl (HTTPException 503 ''Service temporarily unavailable'')
      else if error_type = Some ''zero_division'' then
        Inl (ZeroDivisionError ''division by zero'')
      else Inl (ValueError (''Unknown error type: '' @ str_opt error_type)))"
  by (simp add: demo_exception_try_def py_truediv_def)

lemma exception_route_status:
  "status_of (snd (get_demo_exception param w)) =
     Some (if param = Some ''http'' then 503 else 500)"
  by (cases param)
    (simp_all add: get_demo_exception_def error_type_query_def demo_exception_def
      demo_exception_try_cases status_of_def Let_def)

lemma demo_dependency_status:
  "status_of (snd (demo_dependency_tracking outcome w)) =
     Some (case outcome of
             Inl e \<Rightarrow> 502
           | Inr r \<Rightarrow> (case json_result r of Inl e \<Rightarrow> 502 | Inr data \<Rightarrow> 200))"
  by (simp add: demo_dependency_tracking_def dependency_except_def Let_def status_of_def
      split: sum.splits)

lemma demo_all_status: "status_of (snd (demo_all_telemetry outcome w)) = Some 200"
  by (simp add: demo_all_telemetry_def Let_def status_of_def split: prod.splits)

lemma serve_documented_status:
  "\<exists>s. status_of (snd (serve ep en w)) = Some s \<and> s \<in> set (documented_statuses ep)"
proof (cases ep)
  case Root
  then show ?thesis by (simp add: root_route_def status_of_def)
next
  case Health
  then show ?thesis by (simp add: health_def status_of_def)
next
  case DemoInfo
  then show ?thesis by (simp add: demo_info_log_def status_of_def)
next
  case DemoWarning
  then show ?thesis by (simp add: demo_warning_log_def status_of_def)
next
  case DemoError
  then show ?thesis by (simp add: demo_error_log_def Let_def status_of_def)
next
  case (DemoException param)
  then show ?thesis by (simp add: exception_route_status)
next
  case DemoMetrics
  then show ?thesis by (simp add: demo_metrics_def Let_def status_of_def)
next
  case DemoTrace
  then show ?thesis by (simp add: demo_custom_trace_def Let_def status_of_def)
next
  case DemoDependency
  then show ?thesis by (simp add: demo_dependency_status split: sum.splits)
next
  case DemoSlow
  then show ?thesis by (simp add: demo_slow_operation_def Let_def status_of_def)
next
  case DemoAll
  then show ?thesis by (simp add: demo_all_status)
qed

section \<open>The exception endpoint: status codes\<close>

text \<open>
  Claim C1. On \<^verbatim>\<open>GET /demo/exception\<close> the response status is 503 when \<open>error_type\<close> is
  \<^verbatim>\<open>"http"\<close> and 500 when it is \<^verbatim>\<open>"runtime"\<close> or \<^verbatim>\<open>"zero_division"\<close>; for every value
  other than \<^verbatim>\<open>"http"\<close>, an unrecognised one included, the status is 500, the exception
  \<open>e\<close> raised in the \<^verbatim>\<open>try\<close> block is the one the 500 reports, and the last call the
  handler made before raising the 500 is the \<^verbatim>\<open>logger.exception\<close> for \<open>e\<close>.
\<close>

theorem demo_exception_status:
  "(error_type = Some ''http'' \<longrightarrow> status_of (snd (demo_exception error_type w)) = Some 503) \<and>
   (error_type = Some ''runtime'' \<or> error_type = Some ''zero_division'' \<longrightarrow>
      status_of (snd (demo_exception error_type w)) = Some 500) \<and>
   (error_type \<noteq> Some ''http'' \<longrightarrow>
      status_of (snd (demo_exception error_type w)) = Some 500 \<and>
      (\<exists>e. demo_exception_try error_type = Inl e \<and>
           snd (demo_exception error_type w) =
             Inl (HTTPException 500 (''Internal error: '' @ str_exc e)) \<and>
           last (events (fst (demo_exception error_type w))) =
             Log logger ERROR (''Exception occurred: '' @ type_name e) True
               [(''error_type'', attr_opt error_type),
                (''exception_class'', AStr (type_name e))]))"
  by (simp add: demo_exception_def demo_exception_try_cases status_of_def Let_def
       logger_exception_def emit_def)

theorem demo_exception_status_witness:
  "status_of (snd (demo_exception (Some ''http'') initial_world)) = Some 503 \<and>
   status_of (snd (demo_exception (Some ''runtime'') initial_world)) = Some 500 \<and>
   status_of (snd (demo_exception (Some ''zero_division'') initial_world)) = Some 500 \<and>
   status_of (snd (demo_exception (Some ''teapot'') initial_world)) = Some 500 \<and>
   last (events (fst (demo_exception (Some ''teapot'') initial_world))) =
     Log logger ERROR ''Exception occurred: ValueError'' True
       [(''error_type'', AStr ''teapot''), (''exception_class'', AStr ''ValueError'')]"
  using demo_exception_status [of "Some ''http''" initial_world]
    demo_exception_status [of "Some ''runtime''" initial_world]
    demo_exception_status [of "Some ''zero_division''" initial_world]
    demo_exception_status [of "Some ''teapot''" initial_world]
  by (auto simp add: demo_exception_try_cases)

section \<open>The bootstrap without a connection string\<close>

text \<open>
  Claim C2, as stated, fails on the root logger. With the default settings (no connection
  string) and a root logger that has no handler yet, \<^verbatim>\<open>setup_telemetry\<close> leaves the root
  logger with a stream handler: \<^verbatim>\<open>logging.warning\<close> configures the root logger before it
  logs.
\<close>

theorem bootstrap_adds_root_handler:
  "applicationinsights_connection_string default_settings = None \<and>
   root_handlers initial_world = [] \<and>
   root_handlers (setup_telemetry default_settings initial_world) = [StreamHandler] \<and>
   root_handlers (setup_telemetry default_settings initial_world) \<noteq> root_handlers initial_world"
  by (simp add: setup_telemetry_def logging_warning_def basicConfig_def emit_def
      default_settings_def initial_world_def Let_def)

text \<open>
  Claim C2, amended. When the connection string is \<^verbatim>\<open>None\<close> or empty, \<^verbatim>\<open>setup_telemetry\<close>
  makes one call, the warning on the root logger, and registers nothing: the three
  providers, the instrumented libraries and the root logger's level are unchanged, and the
  root logger's handlers are unchanged when it has one already; when it has none, the
  standard stream handler is installed and nothing else. Every route then answers with one
  of its documented status codes.
\<close>

theorem setup_without_connection_string:
  assumes "\<not> truthy (applicationinsights_connection_string st)"
  shows "events (setup_telemetry st w) =
           events w @ [Log ''root'' WARNING
             (''APPLICATIONINSIGHTS_CONNECTION_STRING is not set. '' @
              ''Telemetry will not be sent to Azure Monitor.'') False []] \<and>
         tracer_provider (setup_telemetry st w) = tracer_provider w \<and>
         meter_provider (setup_telemetry st w) = meter_provider w \<and>
         logger_provider (setup_telemetry st w) = logger_provider w \<and>
         instrumented (setup_telemetry st w) = instrumented w \<and>
         root_level (setup_telemetry st w) = root_level w \<and>
         root_handlers (setup_telemetry st w) =
           (if root_handlers w = [] then [StreamHandler] else root_handlers w) \<and>
         (\<forall>ep en. \<exists>s. status_of (snd (serve ep en (setup_telemetry st w))) = Some s \<and>
                     s \<in> set (documented_statuses ep))"
proof -
  have "setup_telemetry st w =
          emit (Log ''root'' WARNING
             (''APPLICATIONINSIGHTS_CONNECTION_STRING is not set. '' @
              ''Telemetry will not be sent to Azure Monitor.'') False [])
            (if root_handlers w = [] then w\<lparr>root_handlers := [StreamHandler]\<rparr> else w)"
    using assms by (simp add: setup_telemetry_def logging_warning_def basicConfig_def Let_def)
  then show ?thesis
    using serve_documented_status by (simp add: emit_def)
qed

theorem setup_without_connection_string_witness:
  "\<not> truthy (applicationinsights_connection_string
       (default_settings\<lparr>applicationinsights_connection_string := Some ''''\<rparr>)) \<and>
   events (setup_telemetry
       (default_settings\<lparr>applicationinsights_connection_string := Some ''''\<rparr>) initial_world) =
     events initial_world @
     [Log ''root'' WARNING
        (''APPLICATIONINSIGHTS_CONNECTION_STRING is not set. '' @
         ''Telemetry will not be sent to Azure Monitor.'') False []] \<and>
   tracer_provider (setup_telemetry
       (default_settings\<lparr>applicationinsights_connection_string := Some ''''\<rparr>) initial_world) =
     tracer_provider initial_world \<and>
   root_level (setup_telemetry
       (default_settings\<lparr>applicationinsights_connection_string := Some ''''\<rparr>) initial_world) =
     root_level initial_world \<and>
   (\<exists>s. status_of (snd (serve (DemoException (Some ''http''))
           \<lparr>now = 0, rand_unit = 0, rand_below = 0, rand_int = 100,
            outbound = Inl (OtherException ''Timeout'' '''')\<rparr>
           (setup_telemetry
              (default_settings\<lparr>applicationinsights_connection_string := Some ''''\<rparr>)
              initial_world))) = Some s \<and>
        s \<in> set (documented_statuses (DemoException (Some ''http''))))"
proof -
  have h: "\<not> truthy (applicationinsights_connection_string
       (default_settings\<lparr>applicationinsights_connection_string := Some ''''\<rparr>))"
    by simp
  show ?thesis
    using h setup_without_connection_string [OF h, of initial_world]
    by blast
qed

section \<open>The comprehensive endpoint\<close>

text \<open>
  Claim C3. \<^verbatim>\<open>GET /demo/all\<close> answers with status 200 and a non-empty
  \<^verbatim>\<open>telemetry_generated\<close> list whether the outbound call returns or raises; when it
  raises, the failure is an entry of the list and an error record of the log, not an error
  response.
\<close>

theorem demo_all_returns_200:
  "\<exists>items.
     returned_field ''telemetry_generated'' (snd (demo_all_telemetry outcome w)) =
       Some (JList items) \<and>
     items \<noteq> [] \<and>
     returned_field ''total_types'' (snd (demo_all_telemetry outcome w)) =
       Some (JInt (int (length items))) \<and>
     status_of (snd (demo_all_telemetry outcome w)) = Some 200 \<and>
     (\<forall>e. outcome = Inl e \<longrightarrow>
        JStr (ballot_x @ '' Dependency tracking (failed)'') \<in> set items \<and>
        Log logger ERROR (''Dependency call failed: '' @ str_exc e) False []
          \<in> set (events (fst (demo_all_telemetry outcome w))))"
proof (cases outcome)
  case (Inl e)
  then show ?thesis
    by (simp add: demo_all_telemetry_def demo_all_dependency_def Let_def status_of_def
        logger_error_def logger_info_def logger_warning_def logger_exception_def emit_def)
next
  case (Inr r)
  then show ?thesis
    by (simp add: demo_all_telemetry_def demo_all_dependency_def Let_def status_of_def)
qed

theorem demo_all_returns_200_witness:
  "\<exists>items.
     returned_field ''telemetry_generated''
       (snd (demo_all_telemetry (Inl (OtherException ''ConnectTimeout'' ''timed out''))
          initial_world)) = Some (JList items) \<and>
     items \<noteq> [] \<and>
     status_of (snd (demo_all_telemetry (Inl (OtherException ''ConnectTimeout'' ''timed out''))
          initial_world)) = Some 200 \<and>
     JStr (ballot_x @ '' Dependency tracking (failed)'') \<in> set items \<and>
     Log logger ERROR ''Dependency call failed: timed out'' False []
       \<in> set (events (fst (demo_all_telemetry
            (Inl (OtherException ''ConnectTimeout'' ''timed out'')) initial_world)))"
  using demo_all_returns_200 [of "Inl (OtherException ''ConnectTimeout'' ''timed out'')"
      initial_world]
  by auto

section \<open>The metrics endpoint\<close>

text \<open>
  Claim C4. On \<^verbatim>\<open>GET /demo/metrics\<close>, for every draw \<open>u\<close> of \<^verbatim>\<open>random()\<close> in \<open>[0, 1)\<close> and
  every index \<open>k < 3\<close> drawn by \<^verbatim>\<open>choice\<close>, the returned \<^verbatim>\<open>processing_time_ms\<close> lies in
  \<open>[10, 500]\<close> and the returned \<^verbatim>\<open>active_users_change\<close> is one of \<open>-1\<close>, \<open>1\<close>, \<open>2\<close>.
\<close>

theorem demo_metrics_ranges:
  assumes "0 \<le> u" "u < 1" "k < 3"
  shows "\<exists>p c. snd (demo_metrics u k w) =
           Inr (JDict
             [(''message'', JStr ''Custom metrics sent to Azure Monitor''),
              (''metrics'', JDict
                 [(''request_count'', JStr ''+1''),
                  (''processing_time_ms'', JNum p),
                  (''active_users_change'', JInt c)])]) \<and>
           10 \<le> p \<and> p \<le> 500 \<and> c \<in> {- 1, 1, 2}"
proof -
  let ?t = "random_uniform 10 500 u"
  let ?c = "random_choice [- 1, 1, 2 :: int] k"
  have t: "of_int 10 \<le> ?t" "?t \<le> of_int 500"
    using random_uniform_bounds [of u 10 500] assms by simp_all
  have p: "10 \<le> py_round2 ?t" "py_round2 ?t \<le> 500"
    using py_round2_bounds [OF t] by simp_all
  have "k = 0 \<or> k = 1 \<or> k = 2" using assms(3) by arith
  then have c: "?c \<in> {- 1, 1, 2}"
    by (auto simp: random_choice_def)
  have "snd (demo_metrics u k w) =
           Inr (JDict
             [(''message'', JStr ''Custom metrics sent to Azure Monitor''),
              (''metrics'', JDict
                 [(''request_count'', JStr ''+1''),
                  (''processing_time_ms'', JNum (py_round2 ?t)),
                  (''active_users_change'', JInt ?c)])])"
    by (simp add: demo_metrics_def Let_def)
  with p c show ?thesis by blast
qed

theorem demo_metrics_ranges_witness:
  "(0::real) \<le> 1 / 2 \<and> (1 / 2 :: real) < 1 \<and> (0::nat) < 3 \<and>
   (\<exists>p c. snd (demo_metrics (1 / 2) 0 initial_world) =
           Inr (JDict
             [(''message'', JStr ''Custom metrics sent to Azure Monitor''),
              (''metrics'', JDict
                 [(''request_count'', JStr ''+1''),
                  (''processing_time_ms'', JNum p),
                  (''active_users_change'', JInt c)])]) \<and>
           10 \<le> p \<and> p \<le> 500 \<and> c \<in> {- 1, 1, 2})"
  using demo_metrics_ranges [of "1 / 2" 0 initial_world] by simp

section \<open>The slow operation\<close>

text \<open>
  Claim C5, as stated, fails on the comparison with the returned value. With the draw
  \<open>u = 0.498\<close> the chosen duration is \<open>1.996\<close> seconds: the handler sleeps \<open>1.996\<close> seconds
  and returns \<open>2.0\<close>, more than it slept.
\<close>

theorem slow_operation_returned_exceeds_sleep:
  "returned_field ''duration_seconds'' (snd (demo_slow_operation (249 / 500) initial_world)) =
     Some (JNum 2) \<and>
   time_slept (events (fst (demo_slow_operation (249 / 500) initial_world))) = 499 / 250 \<and>
   (499 / 250 :: real) < 2"
  by (simp add: demo_slow_operation_def Let_def random_uniform_def py_round2_def
      round_half_even_def logger_warning_def logger_info_def emit_def initial_world_def)

text \<open>
  Claim C5, amended. On \<^verbatim>\<open>GET /demo/slow\<close>, for every draw \<open>u\<close> of \<^verbatim>\<open>random()\<close> in
  \<open>[0, 1)\<close>, the chosen duration \<open>d\<close> lies in \<open>[1, 3]\<close>, the handler sleeps exactly \<open>d\<close>
  seconds before it returns, and the returned \<^verbatim>\<open>duration_seconds\<close> is \<open>d\<close> rounded to two
  decimals: it lies in \<open>[1, 3]\<close> and differs from the time slept by at most \<open>0.005\<close>.
\<close>

theorem slow_operation_duration:
  assumes "0 \<le> u" "u < 1"
  shows "\<exists>d. d = random_uniform 1 3 u \<and> 1 \<le> d \<and> d \<le> 3 \<and>
           status_of (snd (demo_slow_operation u w)) = Some 200 \<and>
           returned_field ''duration_seconds'' (snd (demo_slow_operation u w)) =
             Some (JNum (py_round2 d)) \<and>
           1 \<le> py_round2 d \<and> py_round2 d \<le> 3 \<and> \<bar>py_round2 d - d\<bar> \<le> 1 / 200 \<and>
           time_slept (events (fst (demo_slow_operation u w))) = time_slept (events w) + d"
proof -
  let ?d = "random_uniform 1 3 u"
  have d: "of_int 1 \<le> ?d" "?d \<le> of_int 3"
    using random_uniform_bounds [of u 1 3] assms by simp_all
  have r: "1 \<le> py_round2 ?d" "py_round2 ?d \<le> 3"
    using py_round2_bounds [OF d] by simp_all
  have s: "status_of (snd (demo_slow_operation u w)) = Some 200"
    by (simp add: demo_slow_operation_def Let_def status_of_def)
  have f: "returned_field ''duration_seconds'' (snd (demo_slow_operation u w)) =
             Some (JNum (py_round2 ?d))"
    by (simp add: demo_slow_operation_def Let_def)
  have t: "time_slept (events (fst (demo_slow_operation u w))) = time_slept (events w) + ?d"
    by (simp add: demo_slow_operation_def Let_def logger_warning_def logger_info_def emit_def
        time_slept_append)
  from d r s f t py_round2_near [of ?d] show ?thesis by simp
qed

theorem slow_operation_duration_witness:
  "(0::real) \<le> 249 / 500 \<and> (249 / 500 :: real) < 1 \<and>
   (\<exists>d. d = random_uniform 1 3 (249 / 500) \<and> 1 \<le> d \<and> d \<le> 3 \<and>
        returned_field ''duration_seconds'' (snd (demo_slow_operation (249 / 500) initial_world)) =
          Some (JNum (py_round2 d)) \<and>
        1 \<le> py_round2 d \<and> py_round2 d \<le> 3 \<and> \<bar>py_round2 d - d\<bar> \<le> 1 / 200 \<and>
        time_slept (events (fst (demo_slow_operation (249 / 500) initial_world))) =
          time_slept (events initial_world) + d)"
  using slow_operation_duration [of "249 / 500" initial_world] by simp

section \<open>The dependency endpoint\<close>

text \<open>
  Claim C6, as stated, fails when the outbound call returns a body that is not JSON. The
  third-party endpoint answers 503 with a body \<^verbatim>\<open>response.json()\<close> cannot decode: the
  call has returned, the decoding raises inside the \<^verbatim>\<open>try\<close> block, and the response
  status is 502, not 200.
\<close>

theorem dependency_non_json_502:
  "status_of (snd (demo_dependency_tracking
      (Inr \<lparr>status_code = 503, elapsed_total_seconds = 1 / 10,
            json_result = Inl (OtherException ''JSONDecodeError''
              ''Expecting value: line 1 column 1 (char 0)'')\<rparr>) initial_world)) = Some 502 \<and>
   status_of (snd (demo_dependency_tracking
      (Inr \<lparr>status_code = 503, elapsed_total_seconds = 1 / 10,
            json_result = Inl (OtherException ''JSONDecodeError''
              ''Expecting value: line 1 column 1 (char 0)'')\<rparr>) initial_world)) \<noteq> Some 200"
  by (simp add: demo_dependency_tracking_def dependency_except_def Let_def status_of_def)

text \<open>
  Claim C6, amended. On \<^verbatim>\<open>GET /demo/dependency\<close> the response status is 502 when the
  outbound call raises any exception, and also when it returns a body that cannot be decoded
  as JSON; when it returns a JSON body the status is 200 and the response echoes the
  downstream status code and payload. In every case the handler makes exactly one outbound
  call.
\<close>

theorem dependency_statuses:
  "(\<forall>e. outcome = Inl e \<longrightarrow>
      snd (demo_dependency_tracking outcome w) =
        Inl (HTTPException 502 (''External service error: '' @ str_exc e)) \<and>
      status_of (snd (demo_dependency_tracking outcome w)) = Some 502) \<and>
   (\<forall>r e. outcome = Inr r \<and> json_result r = Inl e \<longrightarrow>
      snd (demo_dependency_tracking outcome w) =
        Inl (HTTPException 502 (''External service error: '' @ str_exc e)) \<and>
      status_of (snd (demo_dependency_tracking outcome w)) = Some 502) \<and>
   (\<forall>r data. outcome = Inr r \<and> json_result r = Inr data \<longrightarrow>
      status_of (snd (demo_dependency_tracking outcome w)) = Some 200 \<and>
      returned_field ''status_code'' (snd (demo_dependency_tracking outcome w)) =
        Some (JInt (status_code r)) \<and>
      returned_field ''data'' (snd (demo_dependency_tracking outcome w)) = Some data) \<and>
   outbound_calls (events (fst (demo_dependency_tracking outcome w))) =
     outbound_calls (events w) + 1"
proof (cases outcome)
  case (Inl e)
  then show ?thesis
    by (simp add: demo_dependency_tracking_def dependency_except_def Let_def status_of_def
        logger_error_def emit_def outbound_calls_append)
next
  case (Inr r)
  then show ?thesis
    by (cases "json_result r")
      (simp_all add: demo_dependency_tracking_def dependency_except_def Let_def status_of_def
        logger_error_def logger_info_def emit_def outbound_calls_append)
qed

theorem dependency_statuses_witness:
  "status_of (snd (demo_dependency_tracking
      (Inl (OtherException ''ConnectTimeout'' ''timed out'')) initial_world)) = Some 502 \<and>
   status_of (snd (demo_dependency_tracking
      (Inr \<lparr>status_code = 503, elapsed_total_seconds = 1 / 10,
            json_result = Inl (OtherException ''JSONDecodeError''
              ''Expecting value: line 1 column 1 (char 0)'')\<rparr>) initial_world)) = Some 502 \<and>
   status_of (snd (demo_dependency_tracking
      (Inr \<lparr>status_code = 404, elapsed_total_seconds = 1 / 10,
            json_result = Inr (JDict [])\<rparr>) initial_world)) = Some 200 \<and>
   returned_field ''status_code'' (snd (demo_dependency_tracking
      (Inr \<lparr>status_code = 404, elapsed_total_seconds = 1 / 10,
            json_result = Inr (JDict [])\<rparr>) initial_world)) = Some (JInt 404) \<and>
   returned_field ''data'' (snd (demo_dependency_tracking
      (Inr \<lparr>status_code = 404, elapsed_total_seconds = 1 / 10,
            json_result = Inr (JDict [])\<rparr>) initial_world)) = Some (JDict [])"
  using dependency_statuses [of "Inl (OtherException ''ConnectTimeout'' ''timed out'')"
      initial_world]
    dependency_statuses [of "Inr \<lparr>status_code = 503, elapsed_total_seconds = 1 / 10,
            json_result = Inl (OtherException ''JSONDecodeError''
              ''Expecting value: line 1 column 1 (char 0)'')\<rparr>" initial_world]
    dependency_statuses [of "Inr \<lparr>status_code = 404, elapsed_total_seconds = 1 / 10,
            json_result = Inr (JDict [])\<rparr>" initial_world]
  by auto

section \<open>The handler registered for every exception\<close>

text \<open>
  Claim C7 at a concrete request: a \<^verbatim>\<open>RuntimeError\<close> escapes the route \<^verbatim>\<open>/demo/trace\<close>. The
  registered handler logs the exception and returns a \<^verbatim>\<open>dict\<close> with the fields
  \<^verbatim>\<open>error\<close>, \<^verbatim>\<open>detail\<close> and \<^verbatim>\<open>path\<close>; the \<^verbatim>\<open>dict\<close> is not a response, so sending it raises
  \<^verbatim>\<open>TypeError\<close> and the client never gets that body.
\<close>

theorem unhandled_exception_not_delivered:
  "server_error \<lparr>url_path = ''/demo/trace'', http_method = ''GET''\<rparr>
     (RuntimeError ''boom'') initial_world =
     (initial_world\<lparr>events :=
        [Log logger ERROR ''Unhandled exception on /demo/trace'' True
           [(''path'', AStr ''/demo/trace''), (''method'', AStr ''GET'')]]\<rparr>,
      Inl (OtherException ''TypeError''
             (CHR 0x27 # ''dict'' @ CHR 0x27 # '' object is not callable''))) \<and>
   snd (global_exception_handler \<lparr>url_path = ''/demo/trace'', http_method = ''GET''\<rparr>
          (RuntimeError ''boom'') initial_world) =
     PyDict [(''error'', JStr ''Internal server error''),
             (''detail'', JStr ''boom''),
             (''path'', JStr ''/demo/trace'')]"
  by (simp add: server_error_def global_exception_handler_def logger_exception_def emit_def
      initial_world_def)

section \<open>The health endpoint\<close>

text \<open>
  Claim C8, as stated, fails on the order of the timestamps. The timestamp is the reading
  of the system clock, and two successive calls that read the same value, or a later call
  that reads a clock set back in between, return a timestamp that is not greater.
\<close>

theorem health_timestamp_repeats:
  "returned_field ''timestamp'' (snd (health 1700000000 initial_world)) =
     Some (JNum 1700000000) \<and>
   returned_field ''timestamp''
     (snd (health 1700000000 (fst (health 1700000000 initial_world)))) =
     Some (JNum 1700000000) \<and>
   returned_field ''timestamp''
     (snd (health 1699999999 (fst (health 1700000000 initial_world)))) =
     Some (JNum 1699999999) \<and>
   \<not> (1700000000 :: real) < 1700000000 \<and> \<not> (1700000000 :: real) < 1699999999"
  by (simp add: health_def)

text \<open>
  Claim C8, amended. Every call to \<^verbatim>\<open>GET /health\<close> answers with status 200, the status
  field \<^verbatim>\<open>"healthy"\<close> and, as numeric timestamp, the reading of the system clock at the
  call; of two successive calls, the later one has the strictly greater timestamp whenever
  its clock reading is strictly greater.
\<close>

theorem health_response:
  "status_of (snd (health t1 w)) = Some 200 \<and>
   returned_field ''status'' (snd (health t1 w)) = Some (JStr ''healthy'') \<and>
   returned_field ''timestamp'' (snd (health t1 w)) = Some (JNum t1) \<and>
   returned_field ''timestamp'' (snd (health t2 (fst (health t1 w)))) = Some (JNum t2) \<and>
   (t1 < t2 \<longrightarrow>
      (\<exists>a b. returned_field ''timestamp'' (snd (health t1 w)) = Some (JNum a) \<and>
             returned_field ''timestamp'' (snd (health t2 (fst (health t1 w)))) = Some (JNum b) \<and>
             a < b))"
  by (simp add: health_def status_of_def)

theorem health_response_witness:
  "(1700000000 :: real) < 1700000001 \<and>
   status_of (snd (health 1700000000 initial_world)) = Some 200 \<and>
   returned_field ''status'' (snd (health 1700000000 initial_world)) = Some (JStr ''healthy'') \<and>
   (\<exists>a b. returned_field ''timestamp'' (snd (health 1700000000 initial_world)) = Some (JNum a) \<and>
          returned_field ''timestamp''
            (snd (health 1700000001 (fst (health 1700000000 initial_world)))) = Some (JNum b) \<and>
          a < b)"
  using health_response [of 1700000000 initial_world 1700000001] by simp

section \<open>The exception endpoint: counter and default\<close>

text \<open>
  Claim C9. Every call to \<^verbatim>\<open>GET /demo/exception\<close> adds exactly one to the error counter,
  tagged with the \<open>error_type\<close> the handler received, whatever that value is: the update is
  the first call the handler makes, before the \<^verbatim>\<open>try\<close> block raises anything, and no
  later call of the handler touches the counter.
\<close>

theorem demo_exception_counter:
  "\<exists>rest. events (fst (serve (DemoException param) en w)) =
      events w @ CounterAdd error_counter 1
         [(''error_type'', attr_opt (error_type_query param)),
          (''endpoint'', AStr ''/demo/exception'')] # rest \<and>
      counter_adds error_counter rest = [] \<and>
      counter_adds error_counter (events (fst (serve (DemoException param) en w))) =
        counter_adds error_counter (events w) @
          [(1, [(''error_type'', attr_opt (error_type_query param)),
                (''endpoint'', AStr ''/demo/exception'')])]"
  by (simp add: get_demo_exception_def demo_exception_def demo_exception_try_cases Let_def
       logger_exception_def emit_def counter_adds_append)

text \<open>
  Claim C10. A call to \<^verbatim>\<open>GET /demo/exception\<close> without the \<open>error_type\<close> parameter does
  exactly what a call with \<^verbatim>\<open>error_type=runtime\<close> does: it counts the error, raises the
  runtime fault, logs it and answers with status 500.
\<close>

theorem demo_exception_default:
  "get_demo_exception None w = get_demo_exception (Some ''runtime'') w \<and>
   snd (get_demo_exception None w) =
     Inl (HTTPException 500 ''Internal error: This is a simulated runtime error for testing'') \<and>
   status_of (snd (get_demo_exception None w)) = Some 500 \<and>
   events (fst (get_demo_exception None w)) =
     events w @
       [CounterAdd error_counter 1
          [(''error_type'', AStr ''runtime''), (''endpoint'', AStr ''/demo/exception'')],
        Log logger ERROR ''Exception occurred: RuntimeError'' True
          [(''error_type'', AStr ''runtime''), (''exception_class'', AStr ''RuntimeError'')]]"
  by (simp add: get_demo_exception_def error_type_query_def demo_exception_def
       demo_exception_try_cases status_of_def Let_def logger_exception_def emit_def)

end
